theory Spec2Isabelle
  imports Complex_Main "HOL-Library.Multiset" "HOL-Library.Signed_Division"
begin

section \<open>The table-games engine: cards, decks and scoring\<close>

text \<open>
  A shallow embedding of the class \<open>TableGamesEngine\<close>. JavaScript numbers that hold card
  values, scores and wheel numbers are integers in every run and are modelled as \<open>int\<close>;
  money amounts (bets, payouts, balances) are modelled as \<open>rat\<close>, so IEEE rounding is
  outside the model. Where the source produces an undefined or NaN payout, it is \<open>None\<close>.
  The amount that a caller passes to \<open>playBlackjack\<close> is tested by the code before it is
  used, and is a \<open>JSNumber\<close>, which has NaN and the two infinities besides the rationals.
  The remainder operator \<open>%\<close> of JavaScript truncates towards zero and is \<open>smod\<close>.
\<close>

subsection \<open>Data model\<close>

datatype Suit = Hearts | Diamonds | Clubs | Spades

text \<open>The ranks "A", "2", ..., "9", "T", "J", "Q", "K" of the interface \<open>Card\<close>.\<close>

datatype Rank = RA | R2 | R3 | R4 | R5 | R6 | R7 | R8 | R9 | RT | RJ | RQ | RK

text \<open>The field \<open>value\<close> of the source is \<open>cvalue\<close> here.\<close>

record Card =
  suit :: Suit
  rank :: Rank
  cvalue :: int

datatype GameType = Blackjack | Roulette | Baccarat

record Stakes =
  gc :: rat
  sc :: rat

record TableGame =
  tid :: string
  gtype :: GameType
  name :: string
  minBet :: Stakes
  maxBet :: Stakes
  maxPlayers :: nat
  houseEdge :: rat

text \<open>
  A JavaScript number as a caller can pass it. \<open>isFalsy v\<close> is the test \<open>!v\<close>: of the
  numbers, only NaN and zero are falsy. Every comparison with NaN is false.
\<close>

datatype JSNumber = NaN | MinusInfinity | Finite rat | PlusInfinity

fun isFalsy :: "JSNumber \<Rightarrow> bool" where
  "isFalsy NaN = True"
| "isFalsy MinusInfinity = False"
| "isFalsy (Finite x) = (x = 0)"
| "isFalsy PlusInfinity = False"

fun jsLess :: "JSNumber \<Rightarrow> rat \<Rightarrow> bool" where
  "jsLess NaN y = False"
| "jsLess MinusInfinity y = True"
| "jsLess (Finite x) y = (x < y)"
| "jsLess PlusInfinity y = False"

fun jsGreater :: "JSNumber \<Rightarrow> rat \<Rightarrow> bool" where
  "jsGreater NaN y = False"
| "jsGreater MinusInfinity y = False"
| "jsGreater (Finite x) y = (x > y)"
| "jsGreater PlusInfinity y = True"

text \<open>
  The value of a number that has passed the test of the bet amount: such a number lies
  between two finite bounds, so it is finite, and the model leaves \<open>finiteValue\<close>
  unspecified elsewhere.
\<close>

fun finiteValue :: "JSNumber \<Rightarrow> rat" where
  "finiteValue (Finite x) = x"

text \<open>A JavaScript exception that leaves the called method.\<close>

datatype exn = TypeError

subsection \<open>createDeck\<close>

text \<open>
  \<open>parseInt(rank)\<close> is only evaluated for the digit ranks: the letter ranks are taken by
  the earlier branches of the conditional expressions that call it, and the model leaves
  \<open>parseInt\<close> unspecified there.
\<close>

fun parseInt :: "Rank \<Rightarrow> int" where
  "parseInt R2 = 2"
| "parseInt R3 = 3"
| "parseInt R4 = 4"
| "parseInt R5 = 5"
| "parseInt R6 = 6"
| "parseInt R7 = 7"
| "parseInt R8 = 8"
| "parseInt R9 = 9"

definition suits :: "Suit list" where
  "suits = [Hearts, Diamonds, Clubs, Spades]"

definition ranks :: "Rank list" where
  "ranks = [RA, R2, R3, R4, R5, R6, R7, R8, R9, RT, RJ, RQ, RK]"

text \<open>The value that the inner loop of \<open>createDeck\<close> stores in a card of the given rank.\<close>

definition deckValue :: "Rank \<Rightarrow> int" where
  "deckValue r =
     (if r = RA then 11
      else if r \<in> set [RJ, RQ, RK] then 10
      else if r = RT then 10
      else parseInt r)"

text \<open>The deck that the two nested loops push, before it is shuffled.\<close>

definition orderedDeck :: "Card list" where
  "orderedDeck =
     concat (map (\<lambda>s. map (\<lambda>r. \<lparr>suit = s, rank = r, cvalue = deckValue r\<rparr>) ranks) suits)"

text \<open>
  \<open>shuffleArray\<close> is inherited from the base class \<open>GameEngine\<close>, which is not part of the
  sources at hand, and is random: the permutation that one call applies is the parameter
  \<open>shuffle\<close>.
\<close>

definition createDeck :: "(Card list \<Rightarrow> Card list) \<Rightarrow> Card list" where
  "createDeck shuffle = shuffle orderedDeck"

subsection \<open>calculateBlackjackScore\<close>

text \<open>The \<open>for\<close> loop over the hand: the pair is \<open>(score, aces)\<close>.\<close>

fun sumHand :: "Card list \<Rightarrow> int \<times> int \<Rightarrow> int \<times> int" where
  "sumHand [] (score, aces) = (score, aces)"
| "sumHand (c # hand) (score, aces) =
     (if rank c = RA then sumHand hand (score + 11, aces + 1)
      else sumHand hand (score + cvalue c, aces))"

text \<open>The \<open>while\<close> loop that adjusts for aces.\<close>

function adjustAces :: "int \<Rightarrow> int \<Rightarrow> int" where
  "adjustAces score aces =
     (if score > 21 \<and> aces > 0 then adjustAces (score - 10) (aces - 1) else score)"
  by pat_completeness auto
termination
  by (relation "measure (\<lambda>(score, aces). nat aces)") auto

declare adjustAces.simps [simp del]

definition calculateBlackjackScore :: "Card list \<Rightarrow> int" where
  "calculateBlackjackScore hand = (case sumHand hand (0, 0) of (score, aces) \<Rightarrow> adjustAces score aces)"

text \<open>
  The totals a hand can be counted as, in the words of the specification: an ace counts
  11 or 1, a ten or a face card 10, every other card its number.
\<close>

fun faceValue :: "Rank \<Rightarrow> int" where
  "faceValue RA = 11"
| "faceValue R2 = 2"
| "faceValue R3 = 3"
| "faceValue R4 = 4"
| "faceValue R5 = 5"
| "faceValue R6 = 6"
| "faceValue R7 = 7"
| "faceValue R8 = 8"
| "faceValue R9 = 9"
| "faceValue RT = 10"
| "faceValue RJ = 10"
| "faceValue RQ = 10"
| "faceValue RK = 10"

fun achievableTotals :: "Card list \<Rightarrow> int list" where
  "achievableTotals [] = [0]"
| "achievableTotals (c # hand) =
     (if rank c = RA
      then map (\<lambda>t. 11 + t) (achievableTotals hand) @ map (\<lambda>t. 1 + t) (achievableTotals hand)
      else map (\<lambda>t. faceValue (rank c) + t) (achievableTotals hand))"

text \<open>The total with every ace counted as 11, and the number of aces.\<close>

definition softTotal :: "Card list \<Rightarrow> int" where
  "softTotal hand = sum_list (map (\<lambda>c. faceValue (rank c)) hand)"

definition aceCount :: "Card list \<Rightarrow> int" where
  "aceCount hand = int (length (filter (\<lambda>c. rank c = RA) hand))"

text \<open>A card carries the value that \<open>createDeck\<close> gives to its rank.\<close>

definition deckCard :: "Card \<Rightarrow> bool" where
  "deckCard c = (cvalue c = deckValue (rank c))"

subsection \<open>calculateBaccaratValue\<close>

definition baccaratCardValue :: "Card \<Rightarrow> int" where
  "baccaratCardValue c =
     (if rank c = RA then 1
      else if rank c \<in> set [RJ, RQ, RK] then 0
      else if rank c = RT then 0
      else parseInt (rank c))"

definition calculateBaccaratValue :: "Card list \<Rightarrow> int" where
  "calculateBaccaratValue cards =
     (foldl (\<lambda>sum c. sum + baccaratCardValue c) 0 cards) smod 10"

text \<open>
  Hands of the untyped game state can hold \<open>undefined\<close> (\<open>None\<close>): \<open>deck.pop()\<close> on an
  empty deck returns \<open>undefined\<close>, and the non-null assertion \<open>!\<close> is erased at run time.
  A lookup in a \<open>Map\<close> can be \<open>undefined\<close> as a whole. Iterating \<open>undefined\<close> and reading
  \<open>card.rank\<close> of an \<open>undefined\<close> card both throw a TypeError.
\<close>

definition pop :: "'a list \<Rightarrow> 'a option \<times> 'a list" where
  "pop xs = (if xs = [] then (None, []) else (Some (last xs), butlast xs))"

definition bindE :: "exn + 'a \<Rightarrow> ('a \<Rightarrow> exn + 'b) \<Rightarrow> exn + 'b" where
  "bindE m f = (case m of Inl e \<Rightarrow> Inl e | Inr x \<Rightarrow> f x)"

definition blackjackScoreDyn :: "Card option list option \<Rightarrow> exn + int" where
  "blackjackScoreDyn hand =
     (case hand of
        None \<Rightarrow> Inl TypeError
      | Some cs \<Rightarrow> if None \<in> set cs then Inl TypeError
                  else Inr (calculateBlackjackScore (map the cs)))"

definition baccaratValueDyn :: "Card option list \<Rightarrow> exn + int" where
  "baccaratValueDyn cs =
     (if None \<in> set cs then Inl TypeError else Inr (calculateBaccaratValue (map the cs)))"

section \<open>The engine\<close>

subsection \<open>Tables, players and balances\<close>

definition tableList :: "TableGame list" where
  "tableList =
     [\<lparr>tid = ''blackjack-1'', gtype = Blackjack, name = ''Classic Blackjack'',
        minBet = \<lparr>gc = 5, sc = 5 / 100\<rparr>, maxBet = \<lparr>gc = 500, sc = 5\<rparr>,
        maxPlayers = 6, houseEdge = 5 / 10\<rparr>,
      \<lparr>tid = ''roulette-1'', gtype = Roulette, name = ''European Roulette'',
        minBet = \<lparr>gc = 1, sc = 1 / 100\<rparr>, maxBet = \<lparr>gc = 100, sc = 1\<rparr>,
        maxPlayers = 12, houseEdge = 27 / 10\<rparr>,
      \<lparr>tid = ''baccarat-1'', gtype = Baccarat, name = ''Punto Banco'',
        minBet = \<lparr>gc = 10, sc = 1 / 10\<rparr>, maxBet = \<lparr>gc = 1000, sc = 10\<rparr>,
        maxPlayers = 8, houseEdge = 106 / 100\<rparr>]"

text \<open>
  The private field \<open>tables\<close> is filled by \<open>initializeTables\<close> in the constructor and never
  written again.
\<close>

definition tables :: "string \<rightharpoonup> TableGame" where
  "tables = foldl (\<lambda>m t. m(tid t \<mapsto> t)) Map.empty tableList"

datatype Currency = GC | SC

record Balance =
  goldCoins :: rat
  sweepCoins :: rat

text \<open>The fields of \<open>TablePlayer\<close> that the engine reads or writes.\<close>

record TablePlayer =
  balance :: Balance
  currentBet :: rat

text \<open>The round state that \<open>playBlackjack\<close> builds for a table.\<close>

record BlackjackState =
  deck :: "Card list"
  dealerHand :: "Card option list"
  playerHands :: "string \<rightharpoonup> Card option list"
  bets :: "string \<rightharpoonup> rat"
  stage :: string

record Engine =
  players :: "string \<rightharpoonup> TablePlayer"
  gameStates :: "string \<rightharpoonup> BlackjackState"

text \<open>
  The engine as its constructor leaves it: \<open>gameStates\<close> is a new, empty \<open>Map\<close>. The
  players are those registered with the base class.
\<close>

definition initialEngine :: "(string \<rightharpoonup> TablePlayer) \<Rightarrow> Engine" where
  "initialEngine ps = \<lparr>players = ps, gameStates = Map.empty\<rparr>"

text \<open>
  Modelled from the spec: \<open>getPlayer\<close> of the base class \<open>GameEngine\<close>, which is not part of
  the sources at hand: the player stored under the identifier, or absent.
\<close>

definition getPlayer :: "Engine \<Rightarrow> string \<Rightarrow> TablePlayer option" where
  "getPlayer eng playerId = players eng playerId"

text \<open>
  Modelled from the spec: \<open>addBalance\<close> of the base class \<open>GameEngine\<close>, which is not part of
  the sources at hand: it credits the amount to the ledger of the currency.
\<close>

definition addBalance :: "Engine \<Rightarrow> string \<Rightarrow> rat \<Rightarrow> Currency \<Rightarrow> Engine" where
  "addBalance eng playerId amt currency =
     (case players eng playerId of
        None \<Rightarrow> eng
      | Some p \<Rightarrow>
          eng\<lparr>players := (players eng)(playerId \<mapsto>
            p\<lparr>balance :=
                (if currency = GC
                 then (balance p)\<lparr>goldCoins := goldCoins (balance p) + amt\<rparr>
                 else (balance p)\<lparr>sweepCoins := sweepCoins (balance p) + amt\<rparr>)\<rparr>)\<rparr>)"

definition canAffordWager :: "Engine \<Rightarrow> string \<Rightarrow> rat \<Rightarrow> Currency \<Rightarrow> bool" where
  "canAffordWager eng playerId amt currency =
     (case getPlayer eng playerId of
        None \<Rightarrow> False
      | Some player \<Rightarrow>
          if currency = GC then goldCoins (balance player) \<ge> amt
          else sweepCoins (balance player) \<ge> amt)"

subsection \<open>Replies\<close>

datatype BetType =
  BStraight | BSplit | BStreet | BCorner | BLine | BDozen | BColumn
  | BRed | BBlack | BOdd | BEven | BLow | BHigh

record RouletteBet =
  btype :: BetType
  numbers :: "int list"
  amount :: rat
  payout :: rat

datatype Color = Red | Black | Green

record RouletteResult =
  number :: int
  color :: Color
  isOdd :: bool
  dozen :: int
  column :: int

text \<open>One entry of \<open>betResults\<close>: type, amount, isWin, payout.\<close>

record BetResult =
  r_type :: BetType
  r_amount :: rat
  r_isWin :: bool
  r_payout :: rat

datatype BaccaratBet = OnPlayer | OnBanker | OnTie

record BaccaratHand =
  cards :: "Card list"
  hvalue :: int
  isNatural :: bool

record BaccaratResult =
  playerHand :: BaccaratHand
  bankerHand :: BaccaratHand
  winner :: BaccaratBet

text \<open>
  The objects the public methods return. \<open>Failure\<close> is \<open>{success: false, error}\<close>; every
  other constructor is an object with \<open>success: true\<close>:
  \<^item> \<open>BetDealt playerHand dealerCard playerScore\<close>,
  \<^item> \<open>HitDone hand score result\<close>, where \<open>result\<close> is present only on a bust,
  \<^item> \<open>HandResolved result playerScore dealerScore dealerHand payout\<close>, where the payout is
    \<open>None\<close> when the source computes it from an \<open>undefined\<close> bet,
  \<^item> \<open>RouletteDone result betResults totalPayout\<close>,
  \<^item> \<open>BaccaratDone result payout betType amount\<close>.
\<close>

datatype Reply =
  Failure string
  | BetDealt "Card option list" "Card option" int
  | HitDone "Card option list" int "string option"
  | HandResolved string int int "Card option list" "rat option"
  | RouletteDone RouletteResult "BetResult list" rat
  | BaccaratDone BaccaratResult rat BaccaratBet rat

subsection \<open>Blackjack\<close>

text \<open>
  The fresh state object that \<open>playBlackjack\<close> builds when the table has none.
\<close>

definition freshState :: "(Card list \<Rightarrow> Card list) \<Rightarrow> BlackjackState" where
  "freshState shuffle =
     \<lparr>deck = createDeck shuffle, dealerHand = [], playerHands = Map.empty,
      bets = Map.empty, stage = ''betting''\<rparr>"

text \<open>
  The state object is mutated in place. When it was found in \<open>gameStates\<close>, the map holds
  the same object and sees the mutation; when it was built afresh, nothing refers to it
  after the call: no statement of the class stores into \<open>gameStates\<close>.
\<close>

definition writeBack :: "Engine \<Rightarrow> string \<Rightarrow> BlackjackState \<Rightarrow> Engine" where
  "writeBack eng tableId gameState =
     (if gameStates eng tableId = None then eng
      else eng\<lparr>gameStates := (gameStates eng)(tableId \<mapsto> gameState)\<rparr>)"

text \<open>
  The loop "dealer hits to 17" of \<open>resolveBlackjackHand\<close>, on the dealer's hand and the
  deck. The result is how the loop ended, and the hand and the deck as it left them.
\<close>

function dealerDraw ::
  "Card option list \<Rightarrow> Card list \<Rightarrow> (exn + unit) \<times> Card option list \<times> Card list" where
  "dealerDraw hand dk =
     (case blackjackScoreDyn (Some hand) of
        Inl e \<Rightarrow> (Inl e, hand, dk)
      | Inr s \<Rightarrow>
          if s < 17 then dealerDraw (hand @ [fst (pop dk)]) (snd (pop dk))
          else (Inr (), hand, dk))"
  by pat_completeness auto
termination
  by (relation "measure (\<lambda>(hand, dk). if None \<in> set hand then 0 else Suc (length dk))")
     (auto simp: blackjackScoreDyn_def pop_def split: if_splits)

declare dealerDraw.simps [simp del]

definition resolveBlackjackHand ::
  "Engine \<Rightarrow> string \<Rightarrow> BlackjackState \<Rightarrow> (exn + Reply) \<times> BlackjackState \<times> Engine" where
  "resolveBlackjackHand eng playerId gameState =
     (let playerHand = playerHands gameState playerId in
      case dealerDraw (dealerHand gameState) (deck gameState) of
        (ended, dealerHand', deck') \<Rightarrow>
          let gameState' = gameState\<lparr>dealerHand := dealerHand', deck := deck'\<rparr> in
          case ended of
            Inl e \<Rightarrow> (Inl e, gameState', eng)
          | Inr u \<Rightarrow>
             (case blackjackScoreDyn playerHand of
                Inl e \<Rightarrow> (Inl e, gameState', eng)
              | Inr playerScore \<Rightarrow>
                 (case blackjackScoreDyn (Some dealerHand') of
                    Inl e \<Rightarrow> (Inl e, gameState', eng)
                  | Inr dealerScore \<Rightarrow>
                      let bet = bets gameState' playerId;
                          outcome =
                            (if playerScore > 21 then (''bust'', Some 0)
                             else if dealerScore > 21 then (''win'', map_option (\<lambda>b. b * 2) bet)
                             else if playerScore > dealerScore
                               then (''win'', map_option (\<lambda>b. b * 2) bet)
                             else if playerScore < dealerScore then (''lose'', Some 0)
                             else (''push'', bet));
                          eng' =
                            (case snd outcome of
                               None \<Rightarrow> eng
                             | Some p \<Rightarrow> if p > 0 then addBalance eng playerId p GC else eng)
                      in (Inr (HandResolved (fst outcome) playerScore dealerScore dealerHand'
                                (snd outcome)),
                          gameState', eng'))))"

text \<open>
  One call of \<open>playBlackjack\<close>. The optional argument \<open>bet\<close> is \<open>None\<close> when it is left out.
  The reply (or the exception), and the engine after the call.
\<close>

definition playBlackjack ::
  "(Card list \<Rightarrow> Card list) \<Rightarrow> Engine \<Rightarrow> string \<Rightarrow> string \<Rightarrow> string \<Rightarrow> JSNumber option
     \<Rightarrow> (exn + Reply) \<times> Engine" where
  "playBlackjack shuffle eng playerId tableId action bet =
     (case tables tableId of
        None \<Rightarrow> (Inr (Failure ''Invalid blackjack table''), eng)
      | Some table \<Rightarrow>
        if gtype table \<noteq> Blackjack then (Inr (Failure ''Invalid blackjack table''), eng)
        else
          let gameState =
                (case gameStates eng tableId of
                   Some stored \<Rightarrow> stored
                 | None \<Rightarrow> freshState shuffle)
          in
          case getPlayer eng playerId of
            None \<Rightarrow> (Inr (Failure ''Player not found''), eng)
          | Some player \<Rightarrow>
            if action = ''bet'' then
              (case bet of
                 None \<Rightarrow> (Inr (Failure ''Invalid bet amount''), eng)
               | Some v \<Rightarrow>
                 if isFalsy v \<or> jsLess v (gc (minBet table)) \<or> jsGreater v (gc (maxBet table))
                 then (Inr (Failure ''Invalid bet amount''), eng)
                 else
                   let b = finiteValue v;
                       eng1 = eng\<lparr>players := (players eng)(playerId \<mapsto> player\<lparr>currentBet := b\<rparr>)\<rparr>;
                       (c1, d1) = pop (deck gameState);
                       (c2, d2) = pop d1;
                       (c3, d3) = pop d2;
                       (c4, d4) = pop d3;
                       playerHand = [c1, c2];
                       dealerHand' = [c3, c4];
                       gameState' = gameState
                         \<lparr>deck := d4,
                          dealerHand := dealerHand',
                          playerHands := (playerHands gameState)(playerId \<mapsto> playerHand),
                          bets := (bets gameState)(playerId \<mapsto> b),
                          stage := ''playing''\<rparr>
                   in (bindE (blackjackScoreDyn (Some playerHand))
                         (\<lambda>playerScore. Inr (BetDealt playerHand c3 playerScore)),
                       writeBack eng1 tableId gameState'))
            else if action = ''hit'' then
              (case playerHands gameState playerId of
                 None \<Rightarrow> (Inr (Failure ''No active hand''), eng)
               | Some hand \<Rightarrow>
                   let (c, d) = pop (deck gameState);
                       hand' = hand @ [c];
                       gameState' = gameState
                         \<lparr>deck := d,
                          playerHands := (playerHands gameState)(playerId \<mapsto> hand')\<rparr>
                   in (bindE (blackjackScoreDyn (Some hand'))
                         (\<lambda>score.
                            if score > 21 then Inr (HitDone hand' score (Some ''bust''))
                            else Inr (HitDone hand' score None)),
                       writeBack eng tableId gameState'))
            else if action = ''stand'' then
              (case resolveBlackjackHand eng playerId gameState of
                 (reply, gameState', eng') \<Rightarrow> (reply, writeBack eng' tableId gameState'))
            else if action = ''double'' then
              (if \<not> canAffordWager eng playerId (currentBet player) GC
               then (Inr (Failure ''Insufficient funds to double''), eng)
               else
                 case playerHands gameState playerId of
                   None \<Rightarrow> (Inr (Failure ''No active hand''), eng)
                 | Some doubleHand \<Rightarrow>
                     let eng1 = eng\<lparr>players := (players eng)(playerId \<mapsto>
                                  player\<lparr>currentBet := currentBet player * 2\<rparr>)\<rparr>;
                         (c, d) = pop (deck gameState);
                         gameState1 = gameState
                           \<lparr>deck := d,
                            playerHands := (playerHands gameState)(playerId \<mapsto> doubleHand @ [c])\<rparr>
                     in case resolveBlackjackHand eng1 playerId gameState1 of
                          (reply, gameState', eng') \<Rightarrow> (reply, writeBack eng' tableId gameState'))
            else (Inr (Failure ''Invalid action''), eng))"

subsection \<open>Roulette\<close>

definition redNumbers :: "int list" where
  "redNumbers = [1, 3, 5, 7, 9, 12, 14, 16, 18, 19, 21, 23, 25, 27, 30, 32, 34, 36]"

definition generateRouletteResult :: "int \<Rightarrow> RouletteResult" where
  "generateRouletteResult n =
     \<lparr>number = n,
      color = (if n = 0 then Green else if n \<in> set redNumbers then Red else Black),
      isOdd = (n smod 2 = 1),
      dozen = (if n = 0 then 0 else \<lceil>(of_int n :: rat) / 12\<rceil>),
      column = (if n = 0 then 0 else ((n - 1) smod 3) + 1)\<rparr>"

text \<open>\<open>bet.numbers[0]\<close> of an empty array is \<open>undefined\<close>, which equals no number.\<close>

definition checkRouletteBet :: "RouletteBet \<Rightarrow> RouletteResult \<Rightarrow> bool" where
  "checkRouletteBet bet result =
     (case btype bet of
        BStraight \<Rightarrow> number result \<in> set (numbers bet)
      | BRed \<Rightarrow> color result = Red
      | BBlack \<Rightarrow> color result = Black
      | BOdd \<Rightarrow> isOdd result \<and> number result \<noteq> 0
      | BEven \<Rightarrow> \<not> isOdd result \<and> number result \<noteq> 0
      | BLow \<Rightarrow> number result \<ge> 1 \<and> number result \<le> 18
      | BHigh \<Rightarrow> number result \<ge> 19 \<and> number result \<le> 36
      | BDozen \<Rightarrow> (case numbers bet of [] \<Rightarrow> False | x # xs \<Rightarrow> x = dozen result)
      | BColumn \<Rightarrow> (case numbers bet of [] \<Rightarrow> False | x # xs \<Rightarrow> x = column result)
      | BSplit \<Rightarrow> False
      | BStreet \<Rightarrow> False
      | BCorner \<Rightarrow> False
      | BLine \<Rightarrow> False)"

text \<open>The loop over the bets: the pair is \<open>(totalPayout, betResults)\<close>.\<close>

fun settleBets ::
  "RouletteBet list \<Rightarrow> RouletteResult \<Rightarrow> rat \<times> BetResult list \<Rightarrow> rat \<times> BetResult list" where
  "settleBets [] result (totalPayout, betResults) = (totalPayout, betResults)"
| "settleBets (bet # rest) result (totalPayout, betResults) =
     (let isWin = checkRouletteBet bet result;
          pay = (if isWin then amount bet * payout bet else 0)
      in settleBets rest result
           (totalPayout + pay,
            betResults @ [\<lparr>r_type = btype bet, r_amount = amount bet, r_isWin = isWin,
                           r_payout = pay\<rparr>]))"

text \<open>
  \<open>randomNumber\<close> is the value of \<open>Math.floor(Math.random() * 37)\<close> in this call.
\<close>

definition playRoulette ::
  "int \<Rightarrow> Engine \<Rightarrow> string \<Rightarrow> string \<Rightarrow> RouletteBet list \<Rightarrow> (exn + Reply) \<times> Engine" where
  "playRoulette randomNumber eng playerId tableId bs =
     (case tables tableId of
        None \<Rightarrow> (Inr (Failure ''Invalid roulette table''), eng)
      | Some table \<Rightarrow>
        if gtype table \<noteq> Roulette then (Inr (Failure ''Invalid roulette table''), eng)
        else
          let result = generateRouletteResult randomNumber;
              (totalPayout, betResults) = settleBets bs result (0, []);
              eng' = (if totalPayout > 0 then addBalance eng playerId totalPayout GC else eng)
          in (Inr (RouletteDone result betResults totalPayout), eng'))"

subsection \<open>Baccarat\<close>

definition rules :: "int \<rightharpoonup> int list" where
  "rules = map_of
     [(3, [0, 1, 2, 3, 4, 5, 6, 7, 9]),
      (4, [2, 3, 4, 5, 6, 7]),
      (5, [4, 5, 6, 7]),
      (6, [6, 7])]"

definition shouldBankerDrawThird :: "int \<Rightarrow> int \<Rightarrow> bool" where
  "shouldBankerDrawThird bankerValue playerThirdCard =
     (if bankerValue \<ge> 7 then False
      else if bankerValue \<le> 2 then True
      else (case rules bankerValue of
              None \<Rightarrow> False
            | Some xs \<Rightarrow> playerThirdCard \<in> set xs))"

definition mkHand :: "Card option list \<Rightarrow> int \<Rightarrow> bool \<Rightarrow> BaccaratHand" where
  "mkHand cs v natural = \<lparr>cards = map the cs, hvalue = v, isNatural = natural\<rparr>"

text \<open>
  The first part of \<open>playBaccarat\<close>: the deal and the third-card rules, on the deck that
  \<open>createDeck\<close> returned. The result is the two hands as the reply reports them.
\<close>

definition dealBaccarat :: "Card list \<Rightarrow> exn + (BaccaratHand \<times> BaccaratHand)" where
  "dealBaccarat deck0 =
     (let (p1, d1) = pop deck0;
          (p2, d2) = pop d1;
          (b1, d3) = pop d2;
          (b2, d4) = pop d3;
          playerCards = [p1, p2];
          bankerCards = [b1, b2]
      in
      bindE (baccaratValueDyn playerCards) (\<lambda>playerValue.
      bindE (baccaratValueDyn bankerCards) (\<lambda>bankerValue.
        let playerNatural = (playerValue \<ge> 8);
            bankerNatural = (bankerValue \<ge> 8)
        in
        if \<not> playerNatural \<and> \<not> bankerNatural then
          if playerValue \<le> 5 then
            (let (thirdCard, d5) = pop d4;
                 playerCards' = playerCards @ [thirdCard]
             in
             bindE (baccaratValueDyn playerCards') (\<lambda>playerValue'.
               case thirdCard of
                 None \<Rightarrow> Inl TypeError
               | Some third \<Rightarrow>
                   if shouldBankerDrawThird bankerValue (cvalue third) then
                     (let bankerCards' = bankerCards @ [fst (pop d5)]
                      in bindE (baccaratValueDyn bankerCards') (\<lambda>bankerValue'.
                           Inr (mkHand playerCards' playerValue' playerNatural,
                                mkHand bankerCards' bankerValue' bankerNatural)))
                   else Inr (mkHand playerCards' playerValue' playerNatural,
                             mkHand bankerCards bankerValue bankerNatural)))
          else if bankerValue \<le> 5 then
            (let bankerCards' = bankerCards @ [fst (pop d4)]
             in bindE (baccaratValueDyn bankerCards') (\<lambda>bankerValue'.
                  Inr (mkHand playerCards playerValue playerNatural,
                       mkHand bankerCards' bankerValue' bankerNatural)))
          else Inr (mkHand playerCards playerValue playerNatural,
                    mkHand bankerCards bankerValue bankerNatural)
        else Inr (mkHand playerCards playerValue playerNatural,
                  mkHand bankerCards bankerValue bankerNatural))))"

definition playBaccarat ::
  "(Card list \<Rightarrow> Card list) \<Rightarrow> Engine \<Rightarrow> string \<Rightarrow> string \<Rightarrow> BaccaratBet \<Rightarrow> rat
     \<Rightarrow> (exn + Reply) \<times> Engine" where
  "playBaccarat shuffle eng playerId tableId betType amt =
     (case tables tableId of
        None \<Rightarrow> (Inr (Failure ''Invalid baccarat table''), eng)
      | Some table \<Rightarrow>
        if gtype table \<noteq> Baccarat then (Inr (Failure ''Invalid baccarat table''), eng)
        else
          case dealBaccarat (createDeck shuffle) of
            Inl e \<Rightarrow> (Inl e, eng)
          | Inr (pHand, bHand) \<Rightarrow>
              let playerValue = hvalue pHand;
                  bankerValue = hvalue bHand;
                  win = (if playerValue > bankerValue then OnPlayer
                         else if bankerValue > playerValue then OnBanker
                         else OnTie);
                  pay = (if betType = win then
                           (case betType of
                              OnPlayer \<Rightarrow> amt * 2
                            | OnBanker \<Rightarrow> amt * (195 / 100)
                            | OnTie \<Rightarrow> amt * 9)
                         else 0);
                  eng' = (if pay > 0 then addBalance eng playerId pay GC else eng)
              in (Inr (BaccaratDone \<lparr>playerHand = pHand, bankerHand = bHand, winner = win\<rparr>
                         pay betType amt),
                  eng'))"

subsection \<open>Concrete inputs\<close>

text \<open>A player with 1000 gold coins.\<close>

definition alice :: TablePlayer where
  "alice = \<lparr>balance = \<lparr>goldCoins = 1000, sweepCoins = 0\<rparr>, currentBet = 0\<rparr>"

text \<open>
  A shuffle that leaves five chosen cards on top of the deck (the end of the array, where
  \<open>pop\<close> takes them) and keeps the order of the other cards.
\<close>

definition stacked :: "Card list" where
  "stacked =
     [\<lparr>suit = Hearts, rank = RK, cvalue = 10\<rparr>,
      \<lparr>suit = Diamonds, rank = RA, cvalue = 11\<rparr>,
      \<lparr>suit = Diamonds, rank = R2, cvalue = 2\<rparr>,
      \<lparr>suit = Clubs, rank = R2, cvalue = 2\<rparr>,
      \<lparr>suit = Clubs, rank = R3, cvalue = 3\<rparr>]"

definition stackedShuffle :: "Card list \<Rightarrow> Card list" where
  "stackedShuffle xs = filter (\<lambda>c. c \<notin> set stacked) xs @ stacked"

text \<open>
  A round in play: the player holds king and queen on a bet of 10, the dealer 9 and 7,
  and the next card of the deck is a king.
\<close>

definition sampleRound :: BlackjackState where
  "sampleRound =
     \<lparr>deck = [\<lparr>suit = Hearts, rank = R2, cvalue = 2\<rparr>, \<lparr>suit = Diamonds, rank = RK, cvalue = 10\<rparr>],
      dealerHand = [Some \<lparr>suit = Clubs, rank = R9, cvalue = 9\<rparr>,
                    Some \<lparr>suit = Clubs, rank = R7, cvalue = 7\<rparr>],
      playerHands = [''p1'' \<mapsto> [Some \<lparr>suit = Spades, rank = RK, cvalue = 10\<rparr>,
                                 Some \<lparr>suit = Spades, rank = RQ, cvalue = 10\<rparr>]],
      bets = [''p1'' \<mapsto> 10],
      stage = ''playing''\<rparr>"

section \<open>Properties\<close>

subsection \<open>Baccarat hand value\<close>

lemma baccaratCardValue_table:
  "baccaratCardValue c =
     (case rank c of RA \<Rightarrow> 1 | R2 \<Rightarrow> 2 | R3 \<Rightarrow> 3 | R4 \<Rightarrow> 4 | R5 \<Rightarrow> 5 | R6 \<Rightarrow> 6 | R7 \<Rightarrow> 7
      | R8 \<Rightarrow> 8 | R9 \<Rightarrow> 9 | RT \<Rightarrow> 0 | RJ \<Rightarrow> 0 | RQ \<Rightarrow> 0 | RK \<Rightarrow> 0)"
  by (cases "rank c") (simp_all add: baccaratCardValue_def)

lemma baccaratCardValue_nonneg: "0 \<le> baccaratCardValue c"
  by (cases "rank c") (simp_all add: baccaratCardValue_def)

lemma foldl_baccarat_sum:
  "foldl (\<lambda>sum c. sum + baccaratCardValue c) a cs = a + sum_list (map baccaratCardValue cs)"
  by (induction cs arbitrary: a) simp_all

lemma sum_baccarat_nonneg: "0 \<le> sum_list (map baccaratCardValue cs)"
  by (induction cs) (simp_all add: baccaratCardValue_nonneg)

lemma smod_nonneg_eq_mod: "0 \<le> (a::int) \<Longrightarrow> 0 < b \<Longrightarrow> a smod b = a mod b"
  by (simp add: signed_modulo_int_def sgn_if)

lemma calculateBaccaratValue_sum:
  "calculateBaccaratValue cs = sum_list (map baccaratCardValue cs) mod 10"
  unfolding calculateBaccaratValue_def foldl_baccarat_sum
  using sum_baccarat_nonneg [of cs] by (simp add: smod_nonneg_eq_mod)

text \<open>
  Claim C7. For every list of cards, \<open>calculateBaccaratValue\<close> is the sum of the cards'
  baccarat values (ace 1, ten and face cards 0, every other rank its number) modulo 10,
  and so lies between 0 and 9.
\<close>

theorem calculateBaccaratValue_mod10:
  "calculateBaccaratValue cs =
     sum_list (map (\<lambda>c. case rank c of RA \<Rightarrow> 1 | R2 \<Rightarrow> 2 | R3 \<Rightarrow> 3 | R4 \<Rightarrow> 4 | R5 \<Rightarrow> 5
                      | R6 \<Rightarrow> 6 | R7 \<Rightarrow> 7 | R8 \<Rightarrow> 8 | R9 \<Rightarrow> 9
                      | RT \<Rightarrow> 0 | RJ \<Rightarrow> 0 | RQ \<Rightarrow> 0 | RK \<Rightarrow> 0) cs) mod 10
   \<and> 0 \<le> calculateBaccaratValue cs \<and> calculateBaccaratValue cs \<le> 9"
proof -
  have tab: "map baccaratCardValue cs =
     map (\<lambda>c. case rank c of RA \<Rightarrow> 1 | R2 \<Rightarrow> 2 | R3 \<Rightarrow> 3 | R4 \<Rightarrow> 4 | R5 \<Rightarrow> 5
                      | R6 \<Rightarrow> 6 | R7 \<Rightarrow> 7 | R8 \<Rightarrow> 8 | R9 \<Rightarrow> 9
                      | RT \<Rightarrow> 0 | RJ \<Rightarrow> 0 | RQ \<Rightarrow> 0 | RK \<Rightarrow> 0) cs"
    by (rule map_cong) (simp_all add: baccaratCardValue_table)
  show ?thesis unfolding calculateBaccaratValue_sum tab [symmetric] by simp
qed

subsection \<open>Roulette outcomes\<close>

lemma dozen_rat: "\<lceil>(of_int n :: rat) / 12\<rceil> = (n + 11) div 12"
proof -
  have "\<lceil>(of_int n :: rat) / of_int 12\<rceil> = - (- n div 12)"
    by (rule ceiling_divide_eq_div)
  then show ?thesis by simp
qed

lemma dozen_real: "\<lceil>real_of_int n / 12\<rceil> = (n + 11) div 12"
proof -
  have "\<lceil>real_of_int n / of_int 12\<rceil> = - (- n div 12)"
    by (rule ceiling_divide_eq_div)
  then show ?thesis by simp
qed

lemma zero_loses:
  "btype bet \<in> {BOdd, BEven, BLow, BHigh} \<Longrightarrow> \<not> checkRouletteBet bet (generateRouletteResult 0)"
  by (auto simp: checkRouletteBet_def generateRouletteResult_def)

lemma gen0: "generateRouletteResult 0 = \<lparr>number = 0, color = Green, isOdd = False, dozen = 0, column = 0\<rparr>"
  by (simp add: generateRouletteResult_def signed_modulo_int_def)

lemma gen_pos:
  "0 < n \<Longrightarrow> generateRouletteResult n =
     \<lparr>number = n, color = (if n \<in> set redNumbers then Red else Black), isOdd = (n mod 2 = 1),
      dozen = (n + 11) div 12, column = (n - 1) mod 3 + 1\<rparr>"
  by (simp add: generateRouletteResult_def dozen_rat smod_nonneg_eq_mod)

lemma gen32: "generateRouletteResult 32 = \<lparr>number = 32, color = Red, isOdd = False, dozen = 3, column = 2\<rparr>"
  by (simp add: gen_pos redNumbers_def)

lemma gen_nonzero:
  assumes "1 \<le> n" "n \<le> 36"
  shows "color (generateRouletteResult n) =
           (if n \<in> {1, 3, 5, 7, 9, 12, 14, 16, 18, 19, 21, 23, 25, 27, 30, 32, 34, 36} then Red else Black)"
    and "dozen (generateRouletteResult n) = \<lceil>real_of_int n / 12\<rceil>"
    and "dozen (generateRouletteResult n) = (n + 11) div 12"
    and "column (generateRouletteResult n) = (n - 1) mod 3 + 1"
  using assms
  by (simp_all add: gen_pos redNumbers_def dozen_real)

text \<open>
  Claim C6. The number 0 gives the colour green, dozen 0 and column 0, and every bet on
  odd, even, low or high loses on it. A number \<open>n\<close> from 1 to 36 is red exactly when it is
  one of the eighteen red numbers and black otherwise, its dozen is the ceiling of
  \<open>n / 12\<close> and its column is \<open>(n - 1) mod 3 + 1\<close>. The number 32 is red, in dozen 3 and
  column 2.
\<close>

theorem roulette_outcome:
  "generateRouletteResult 0 = \<lparr>number = 0, color = Green, isOdd = False, dozen = 0, column = 0\<rparr>
   \<and> (\<forall>bet. btype bet \<in> {BOdd, BEven, BLow, BHigh}
          \<longrightarrow> \<not> checkRouletteBet bet (generateRouletteResult 0))
   \<and> (1 \<le> n \<and> n \<le> 36 \<longrightarrow>
        color (generateRouletteResult n) =
          (if n \<in> {1, 3, 5, 7, 9, 12, 14, 16, 18, 19, 21, 23, 25, 27, 30, 32, 34, 36}
           then Red else Black)
        \<and> dozen (generateRouletteResult n) = \<lceil>real_of_int n / 12\<rceil>
        \<and> dozen (generateRouletteResult n) = (n + 11) div 12
        \<and> column (generateRouletteResult n) = (n - 1) mod 3 + 1)
   \<and> generateRouletteResult 32 = \<lparr>number = 32, color = Red, isOdd = False, dozen = 3, column = 2\<rparr>"
  using gen0 gen32 zero_loses gen_nonzero by blast

theorem roulette_outcome_witness:
  "\<not> checkRouletteBet \<lparr>btype = BEven, numbers = [], amount = 5, payout = 2\<rparr> (generateRouletteResult 0)
   \<and> color (generateRouletteResult 17) = Black
   \<and> dozen (generateRouletteResult 17) = 2
   \<and> column (generateRouletteResult 17) = 2"
proof -
  note t = roulette_outcome [of 17]
  from t have a: "btype b \<in> {BOdd, BEven, BLow, BHigh}
      \<longrightarrow> \<not> checkRouletteBet b (generateRouletteResult 0)" for b
    by blast
  have "\<not> checkRouletteBet \<lparr>btype = BEven, numbers = [], amount = 5, payout = 2\<rparr>
          (generateRouletteResult 0)"
    using a [of "\<lparr>btype = BEven, numbers = [], amount = 5, payout = 2\<rparr>"] by simp
  moreover from t have "color (generateRouletteResult 17) = Black
     \<and> dozen (generateRouletteResult 17) = 2 \<and> column (generateRouletteResult 17) = 2"
    by simp
  ultimately show ?thesis by blast
qed

subsection \<open>Bet types that no branch of checkRouletteBet covers\<close>

lemma settleBets_losing:
  "\<forall>b\<in>set bs. \<not> checkRouletteBet b result \<Longrightarrow>
   settleBets bs result (t0, rs) =
     (t0, rs @ map (\<lambda>b. \<lparr>r_type = btype b, r_amount = amount b, r_isWin = False, r_payout = 0\<rparr>) bs)"
  by (induction bs arbitrary: t0 rs) simp_all


lemma tables_eval:
  "tables ''blackjack-1'' = Some (tableList ! 0)"
  "tables ''roulette-1'' = Some (tableList ! 1)"
  "tables ''baccarat-1'' = Some (tableList ! 2)"
  by (simp_all add: tables_def tableList_def)

lemma settleBets_eq:
  "settleBets bs res (t0, rs) =
     (t0 + sum_list (map (\<lambda>b. if checkRouletteBet b res then amount b * payout b else 0) bs),
      rs @ map (\<lambda>b. \<lparr>r_type = btype b, r_amount = amount b,
                       r_isWin = checkRouletteBet b res,
                       r_payout = (if checkRouletteBet b res then amount b * payout b else 0)\<rparr>) bs)"
  by (induction bs arbitrary: t0 rs) (simp_all add: Let_def)

lemma playRoulette_eq:
  "playRoulette n eng playerId ''roulette-1'' bs =
     (let res = generateRouletteResult n;
          brs = map (\<lambda>b. \<lparr>r_type = btype b, r_amount = amount b,
                            r_isWin = checkRouletteBet b res,
                            r_payout = (if checkRouletteBet b res then amount b * payout b else 0)\<rparr>) bs;
          tot = sum_list (map r_payout brs)
      in (Inr (RouletteDone res brs tot),
          if tot > 0 then addBalance eng playerId tot GC else eng))"
  by (simp add: playRoulette_def tables_eval tableList_def settleBets_eq Let_def comp_def)

lemma uncovered_loses:
  "btype b \<in> {BSplit, BStreet, BCorner, BLine} \<Longrightarrow> \<not> checkRouletteBet b r"
  by (auto simp: checkRouletteBet_def)

text \<open>
  Claim C10. A bet of type split, street, corner or line loses against every wheel
  outcome. \<open>playRoulette\<close> accepts such bets in any list of bets: at the roulette table
  the call is answered with success, every such bet is reported as lost with payout 0
  whatever the other bets of the list are, the total payout is the sum over the bets of
  the other types only, and only this sum is credited. When the list holds such bets
  only, the total payout is 0 and no balance is credited.
\<close>

theorem uncovered_bets_never_win:
  "(btype bet \<in> {BSplit, BStreet, BCorner, BLine} \<longrightarrow> \<not> checkRouletteBet bet result)
   \<and> playRoulette n eng playerId ''roulette-1'' bs =
       (let res = generateRouletteResult n;
            tot = sum_list
                    (map (\<lambda>b. if checkRouletteBet b res then amount b * payout b else 0)
                       (filter (\<lambda>b. btype b \<notin> {BSplit, BStreet, BCorner, BLine}) bs))
        in (Inr (RouletteDone res
                  (map (\<lambda>b. if btype b \<in> {BSplit, BStreet, BCorner, BLine}
                             then \<lparr>r_type = btype b, r_amount = amount b,
                                   r_isWin = False, r_payout = 0\<rparr>
                             else \<lparr>r_type = btype b, r_amount = amount b,
                                   r_isWin = checkRouletteBet b res,
                                   r_payout = (if checkRouletteBet b res
                                               then amount b * payout b else 0)\<rparr>) bs)
                  tot),
            if tot > 0 then addBalance eng playerId tot GC else eng))
   \<and> ((\<forall>b\<in>set bs. btype b \<in> {BSplit, BStreet, BCorner, BLine}) \<longrightarrow>
        playRoulette n eng playerId ''roulette-1'' bs =
          (Inr (RouletteDone (generateRouletteResult n)
                  (map (\<lambda>b. \<lparr>r_type = btype b, r_amount = amount b, r_isWin = False, r_payout = 0\<rparr>) bs)
                  0),
           eng))"
proof -
  let ?S = "{BSplit, BStreet, BCorner, BLine}"
  let ?res = "generateRouletteResult n"
  let ?pay = "\<lambda>b. if checkRouletteBet b ?res then amount b * payout b else 0"
  let ?full = "\<lambda>b. \<lparr>r_type = btype b, r_amount = amount b, r_isWin = checkRouletteBet b ?res,
                     r_payout = ?pay b\<rparr>"
  have rows: "map ?full bs =
      map (\<lambda>b. if btype b \<in> ?S
                then \<lparr>r_type = btype b, r_amount = amount b, r_isWin = False, r_payout = 0\<rparr>
                else ?full b) bs"
    by (rule map_cong) (simp_all add: uncovered_loses)
  have "sum_list (map ?pay (filter (\<lambda>b. btype b \<notin> ?S) bs)) = sum_list (map ?pay bs)"
    by (rule sum_list_map_filter) (simp add: uncovered_loses)
  then have tot: "sum_list (map r_payout (map ?full bs)) =
      sum_list (map ?pay (filter (\<lambda>b. btype b \<notin> ?S) bs))"
    by (simp add: comp_def)
  have general: "playRoulette n eng playerId ''roulette-1'' bs =
       (let res = generateRouletteResult n;
            tot = sum_list
                    (map (\<lambda>b. if checkRouletteBet b res then amount b * payout b else 0)
                       (filter (\<lambda>b. btype b \<notin> {BSplit, BStreet, BCorner, BLine}) bs))
        in (Inr (RouletteDone res
                  (map (\<lambda>b. if btype b \<in> {BSplit, BStreet, BCorner, BLine}
                             then \<lparr>r_type = btype b, r_amount = amount b,
                                   r_isWin = False, r_payout = 0\<rparr>
                             else \<lparr>r_type = btype b, r_amount = amount b,
                                   r_isWin = checkRouletteBet b res,
                                   r_payout = (if checkRouletteBet b res
                                               then amount b * payout b else 0)\<rparr>) bs)
                  tot),
            if tot > 0 then addBalance eng playerId tot GC else eng))"
    unfolding playRoulette_eq Let_def tot rows [symmetric] by (rule refl)
  have only: "playRoulette n eng playerId ''roulette-1'' bs =
          (Inr (RouletteDone (generateRouletteResult n)
                  (map (\<lambda>b. \<lparr>r_type = btype b, r_amount = amount b, r_isWin = False, r_payout = 0\<rparr>) bs)
                  0),
           eng)" if "\<forall>b\<in>set bs. btype b \<in> ?S"
  proof -
    from that have "\<forall>b\<in>set bs. \<not> checkRouletteBet b ?res"
      using uncovered_loses by blast
    then show ?thesis
      by (simp add: playRoulette_def tables_eval tableList_def settleBets_losing)
  qed
  from uncovered_loses general only show ?thesis by blast
qed

theorem uncovered_bets_never_win_witness:
  "\<not> checkRouletteBet \<lparr>btype = BSplit, numbers = [17, 18], amount = 5, payout = 17\<rparr>
        (generateRouletteResult 17)
   \<and> playRoulette 17 (initialEngine [''p1'' \<mapsto> alice]) ''p1'' ''roulette-1''
        [\<lparr>btype = BStraight, numbers = [17], amount = 5, payout = 35\<rparr>,
         \<lparr>btype = BSplit, numbers = [17, 18], amount = 5, payout = 17\<rparr>] =
      (Inr (RouletteDone (generateRouletteResult 17)
         [\<lparr>r_type = BStraight, r_amount = 5, r_isWin = True, r_payout = 175\<rparr>,
          \<lparr>r_type = BSplit, r_amount = 5, r_isWin = False, r_payout = 0\<rparr>] 175),
       initialEngine
         [''p1'' \<mapsto> alice\<lparr>balance := \<lparr>goldCoins = 1175, sweepCoins = 0\<rparr>\<rparr>])
   \<and> playRoulette 17 (initialEngine [''p1'' \<mapsto> alice]) ''p1'' ''roulette-1''
        [\<lparr>btype = BSplit, numbers = [17, 18], amount = 5, payout = 17\<rparr>,
         \<lparr>btype = BCorner, numbers = [16, 17, 19, 20], amount = 2, payout = 8\<rparr>] =
      (Inr (RouletteDone (generateRouletteResult 17)
         [\<lparr>r_type = BSplit, r_amount = 5, r_isWin = False, r_payout = 0\<rparr>,
          \<lparr>r_type = BCorner, r_amount = 2, r_isWin = False, r_payout = 0\<rparr>] 0),
       initialEngine [''p1'' \<mapsto> alice])"
proof -
  have n17: "number (generateRouletteResult 17) = 17"
    by (simp add: generateRouletteResult_def)
  have mixed: "playRoulette 17 (initialEngine [''p1'' \<mapsto> alice]) ''p1'' ''roulette-1''
        [\<lparr>btype = BStraight, numbers = [17], amount = 5, payout = 35\<rparr>,
         \<lparr>btype = BSplit, numbers = [17, 18], amount = 5, payout = 17\<rparr>] =
      (Inr (RouletteDone (generateRouletteResult 17)
         [\<lparr>r_type = BStraight, r_amount = 5, r_isWin = True, r_payout = 175\<rparr>,
          \<lparr>r_type = BSplit, r_amount = 5, r_isWin = False, r_payout = 0\<rparr>] 175),
       initialEngine
         [''p1'' \<mapsto> alice\<lparr>balance := \<lparr>goldCoins = 1175, sweepCoins = 0\<rparr>\<rparr>])"
    using uncovered_bets_never_win [of "\<lparr>btype = BSplit, numbers = [17, 18], amount = 5, payout = 17\<rparr>"
      "generateRouletteResult 17" 17 "initialEngine [''p1'' \<mapsto> alice]" "''p1''"
      "[\<lparr>btype = BStraight, numbers = [17], amount = 5, payout = 35\<rparr>,
        \<lparr>btype = BSplit, numbers = [17, 18], amount = 5, payout = 17\<rparr>]"]
    by (simp add: checkRouletteBet_def n17 addBalance_def initialEngine_def alice_def)
  have uncovered: "\<not> checkRouletteBet \<lparr>btype = BSplit, numbers = [17, 18], amount = 5, payout = 17\<rparr>
        (generateRouletteResult 17)
    \<and> playRoulette 17 (initialEngine [''p1'' \<mapsto> alice]) ''p1'' ''roulette-1''
        [\<lparr>btype = BSplit, numbers = [17, 18], amount = 5, payout = 17\<rparr>,
         \<lparr>btype = BCorner, numbers = [16, 17, 19, 20], amount = 2, payout = 8\<rparr>] =
      (Inr (RouletteDone (generateRouletteResult 17)
         [\<lparr>r_type = BSplit, r_amount = 5, r_isWin = False, r_payout = 0\<rparr>,
          \<lparr>r_type = BCorner, r_amount = 2, r_isWin = False, r_payout = 0\<rparr>] 0),
       initialEngine [''p1'' \<mapsto> alice])"
    using uncovered_bets_never_win [of "\<lparr>btype = BSplit, numbers = [17, 18], amount = 5, payout = 17\<rparr>"
      "generateRouletteResult 17" 17 "initialEngine [''p1'' \<mapsto> alice]" "''p1''"
      "[\<lparr>btype = BSplit, numbers = [17, 18], amount = 5, payout = 17\<rparr>,
        \<lparr>btype = BCorner, numbers = [16, 17, 19, 20], amount = 2, payout = 8\<rparr>]"]
    by simp
  from mixed uncovered show ?thesis by blast
qed

subsection \<open>The deck\<close>

lemma deckValue_faceValue: "deckValue r = faceValue r"
  by (cases r) (simp_all add: deckValue_def)

lemma orderedDeck_length: "length orderedDeck = 52"
  by (simp add: orderedDeck_def suits_def ranks_def)

lemma orderedDeck_distinct: "distinct (map (\<lambda>c. (suit c, rank c)) orderedDeck)"
  by (simp add: orderedDeck_def suits_def ranks_def)

lemma orderedDeck_pairs: "(s, r) \<in> set (map (\<lambda>c. (suit c, rank c)) orderedDeck)"
  by (cases s; cases r) (simp_all add: orderedDeck_def suits_def ranks_def)

lemma orderedDeck_values: "c \<in> set orderedDeck \<Longrightarrow> cvalue c = faceValue (rank c)"
  by (auto simp: orderedDeck_def deckValue_faceValue)

text \<open>
  Claim C9. When the shuffle returns a permutation of the deck it is given, \<open>createDeck\<close>
  returns 52 cards, one for each of the 4 x 13 pairs of a suit and a rank, and every card
  stores the blackjack value of its rank: 11 for an ace, 10 for a ten or a face card, the
  number for the ranks 2 to 9.
\<close>

theorem createDeck_full_deck:
  assumes "mset (shuffle orderedDeck) = mset orderedDeck"
  shows "length (createDeck shuffle) = 52
     \<and> distinct (map (\<lambda>c. (suit c, rank c)) (createDeck shuffle))
     \<and> set (map (\<lambda>c. (suit c, rank c)) (createDeck shuffle)) = UNIV
     \<and> (\<forall>c\<in>set (createDeck shuffle). cvalue c = faceValue (rank c))"
proof -
  let ?f = "\<lambda>c. (suit c, rank c)"
  have len: "length (createDeck shuffle) = 52"
    using mset_eq_length [OF assms] by (simp add: createDeck_def orderedDeck_length)
  have m: "mset (map ?f (createDeck shuffle)) = mset (map ?f orderedDeck)"
    using assms by (simp add: createDeck_def)
  have dist: "distinct (map ?f (createDeck shuffle))"
    using mset_eq_imp_distinct_iff [OF m] orderedDeck_distinct by simp
  have "set (map ?f (createDeck shuffle)) = set (map ?f orderedDeck)"
    by (rule mset_eq_setD [OF m])
  also have "\<dots> = UNIV"
    using orderedDeck_pairs by auto
  finally have all: "set (map ?f (createDeck shuffle)) = UNIV" .
  have "set (createDeck shuffle) = set orderedDeck"
    using mset_eq_setD [OF assms] by (simp add: createDeck_def)
  then have vals: "\<forall>c\<in>set (createDeck shuffle). cvalue c = faceValue (rank c)"
    using orderedDeck_values by blast
  from len dist all vals show ?thesis by blast
qed

theorem createDeck_full_deck_witness:
  "mset (rev orderedDeck) = mset orderedDeck
   \<and> length (createDeck rev) = 52
   \<and> distinct (map (\<lambda>c. (suit c, rank c)) (createDeck rev))
   \<and> set (map (\<lambda>c. (suit c, rank c)) (createDeck rev)) = UNIV"
  using createDeck_full_deck [of rev] by simp

subsection \<open>Blackjack score\<close>

lemma sumHand_eq:
  "\<forall>c\<in>set hand. deckCard c \<Longrightarrow>
   sumHand hand (s, a) = (s + softTotal hand, a + aceCount hand)"
proof (induction hand arbitrary: s a)
  case Nil
  then show ?case by (simp add: softTotal_def aceCount_def)
next
  case (Cons c hand)
  then have "cvalue c = faceValue (rank c)"
    by (simp add: deckCard_def deckValue_faceValue)
  with Cons show ?case
    by (simp add: softTotal_def aceCount_def)
qed

lemma adjustAces_steps:
  "0 \<le> a \<Longrightarrow>
   \<exists>k. 0 \<le> k \<and> k \<le> a \<and> adjustAces s a = s - 10 * k
       \<and> (\<forall>j. 0 \<le> j \<and> j < k \<longrightarrow> s - 10 * j > 21)
       \<and> (adjustAces s a \<le> 21 \<or> k = a)"
proof (induction s a rule: adjustAces.induct)
  case (1 score aces)
  show ?case
  proof (cases "score > 21 \<and> aces > 0")
    case True
    define r where "r = adjustAces (score - 10) (aces - 1)"
    from True have "0 \<le> aces - 1" by simp
    from 1(1) [OF True this] obtain k where k: "0 \<le> k" "k \<le> aces - 1"
      "r = score - 10 - 10 * k"
      "\<forall>j. 0 \<le> j \<and> j < k \<longrightarrow> score - 10 - 10 * j > 21"
      "r \<le> 21 \<or> k = aces - 1"
      unfolding r_def by blast
    have eq: "adjustAces score aces = r"
      unfolding r_def using True by (subst adjustAces.simps) simp
    have low: "score - 10 * j > 21" if j: "0 \<le> j" "j < k + 1" for j
    proof (cases "j = 0")
      case True
      then show ?thesis using \<open>score > 21 \<and> aces > 0\<close> by simp
    next
      case False
      with j have "0 \<le> j - 1 \<and> j - 1 < k" by simp
      with k(4) have "score - 10 - 10 * (j - 1) > 21" by blast
      then show ?thesis by simp
    qed
    have "0 \<le> k + 1" "k + 1 \<le> aces" "r = score - 10 * (k + 1)" "r \<le> 21 \<or> k + 1 = aces"
      using k by auto
    with low show ?thesis
      unfolding eq by (intro exI [of _ "k + 1"]) blast
  next
    case False
    then have eq: "adjustAces score aces = score"
      by (subst adjustAces.simps) auto
    have "score \<le> 21 \<or> 0 = aces" using False 1(2) by auto
    then show ?thesis
      unfolding eq using 1(2) by (intro exI [of _ 0]) auto
  qed
qed

lemma achievableTotals_set:
  "set (achievableTotals hand) = {softTotal hand - 10 * j | j. 0 \<le> j \<and> j \<le> aceCount hand}"
proof (induction hand)
  case Nil
  then show ?case by (auto simp: softTotal_def aceCount_def)
next
  case (Cons c hand)
  show ?case
  proof (cases "rank c = RA")
    case True
    have st: "softTotal (c # hand) = 11 + softTotal hand"
      and ac: "aceCount (c # hand) = aceCount hand + 1"
      using True by (simp_all add: softTotal_def aceCount_def)
    have nn: "0 \<le> aceCount hand" by (simp add: aceCount_def)
    have in11: "11 + u \<in> set (achievableTotals (c # hand))"
      and in1: "1 + u \<in> set (achievableTotals (c # hand))"
      if "u \<in> set (achievableTotals hand)" for u
      using that True by simp_all
    show ?thesis
    proof (intro set_eqI iffI)
      fix t assume "t \<in> set (achievableTotals (c # hand))"
      then obtain u where u: "u \<in> set (achievableTotals hand)" "t = 11 + u \<or> t = 1 + u"
        using True by auto
      then obtain j where j: "u = softTotal hand - 10 * j" "0 \<le> j" "j \<le> aceCount hand"
        using Cons.IH by auto
      from u(2) show "t \<in> {softTotal (c # hand) - 10 * j | j. 0 \<le> j \<and> j \<le> aceCount (c # hand)}"
      proof
        assume "t = 11 + u"
        with j st ac show ?thesis by (intro CollectI exI [of _ j]) simp
      next
        assume "t = 1 + u"
        with j st ac show ?thesis by (intro CollectI exI [of _ "j + 1"]) simp
      qed
    next
      fix t assume "t \<in> {softTotal (c # hand) - 10 * j | j. 0 \<le> j \<and> j \<le> aceCount (c # hand)}"
      then obtain j where j: "t = 11 + softTotal hand - 10 * j" "0 \<le> j" "j \<le> aceCount hand + 1"
        using st ac by auto
      show "t \<in> set (achievableTotals (c # hand))"
      proof (cases "j \<le> aceCount hand")
        case True
        with j have "softTotal hand - 10 * j \<in> set (achievableTotals hand)"
          using Cons.IH by auto
        moreover have "t = 11 + (softTotal hand - 10 * j)" using j by simp
        ultimately show ?thesis using in11 by blast
      next
        case False
        with j have "0 \<le> j - 1" "j - 1 \<le> aceCount hand" using nn by simp_all
        then have "softTotal hand - 10 * (j - 1) \<in> set (achievableTotals hand)"
          using Cons.IH by blast
        moreover have "t = 1 + (softTotal hand - 10 * (j - 1))" using j by simp
        ultimately show ?thesis using in1 by blast
      qed
    qed
  next
    case False
    then have st: "softTotal (c # hand) = faceValue (rank c) + softTotal hand"
      and ac: "aceCount (c # hand) = aceCount hand"
      by (simp_all add: softTotal_def aceCount_def)
    show ?thesis
      using False by (auto simp: st ac Cons.IH)
  qed
qed


lemma score_steps:
  assumes "\<forall>c\<in>set hand. deckCard c"
  shows "\<exists>k. 0 \<le> k \<and> k \<le> aceCount hand
            \<and> calculateBlackjackScore hand = softTotal hand - 10 * k
            \<and> (\<forall>j. 0 \<le> j \<and> j < k \<longrightarrow> softTotal hand - 10 * j > 21)
            \<and> (calculateBlackjackScore hand \<le> 21 \<or> k = aceCount hand)"
proof -
  have "calculateBlackjackScore hand = adjustAces (softTotal hand) (aceCount hand)"
    using sumHand_eq [OF assms, of 0 0] by (simp add: calculateBlackjackScore_def)
  moreover have "0 \<le> aceCount hand" by (simp add: aceCount_def)
  ultimately show ?thesis
    using adjustAces_steps [of "aceCount hand" "softTotal hand"] by simp
qed

lemma score_best:
  assumes "\<forall>c\<in>set hand. deckCard c"
  shows "calculateBlackjackScore hand \<in> set (achievableTotals hand)"
    and "t \<in> set (achievableTotals hand) \<Longrightarrow> t \<le> 21 \<Longrightarrow>
           calculateBlackjackScore hand \<le> 21 \<and> t \<le> calculateBlackjackScore hand"
    and "\<forall>u\<in>set (achievableTotals hand). 21 < u \<Longrightarrow> t \<in> set (achievableTotals hand) \<Longrightarrow>
           calculateBlackjackScore hand \<le> t"
proof -
  define r where "r = calculateBlackjackScore hand"
  from score_steps [OF assms] obtain k where k: "0 \<le> k" "k \<le> aceCount hand"
    "r = softTotal hand - 10 * k"
    "\<forall>j. 0 \<le> j \<and> j < k \<longrightarrow> softTotal hand - 10 * j > 21"
    "r \<le> 21 \<or> k = aceCount hand"
    unfolding r_def by blast
  show mem: "calculateBlackjackScore hand \<in> set (achievableTotals hand)"
    unfolding achievableTotals_set r_def [symmetric] using k(1,2,3) by blast
  {
    assume t: "t \<in> set (achievableTotals hand)" "t \<le> 21"
    then obtain j where j: "t = softTotal hand - 10 * j" "0 \<le> j" "j \<le> aceCount hand"
      unfolding achievableTotals_set by blast
    have kj: "k \<le> j"
    proof (rule ccontr)
      assume "\<not> k \<le> j"
      with j(2) k(4) have "softTotal hand - 10 * j > 21" by simp
      with t(2) j(1) show False by simp
    qed
    have "r \<le> 21" using k(5)
    proof
      assume "k = aceCount hand"
      with kj j have "j = k" by simp
      with j(1) k(3) t(2) show ?thesis by simp
    qed simp
    moreover have "t \<le> r" using kj j(1) k(3) by simp
    ultimately show "calculateBlackjackScore hand \<le> 21 \<and> t \<le> calculateBlackjackScore hand"
      unfolding r_def by simp
  }
  {
    assume all: "\<forall>u\<in>set (achievableTotals hand). 21 < u" and t: "t \<in> set (achievableTotals hand)"
    from t obtain j where j: "t = softTotal hand - 10 * j" "0 \<le> j" "j \<le> aceCount hand"
      unfolding achievableTotals_set by blast
    from all mem have "21 < r" unfolding r_def by blast
    with k(5) have "k = aceCount hand" by simp
    with j k(3) show "calculateBlackjackScore hand \<le> t"
      unfolding r_def [symmetric] by simp
  }
qed

lemma score_examples:
  "calculateBlackjackScore [\<lparr>suit = s1, rank = RA, cvalue = 11\<rparr>, \<lparr>suit = s2, rank = RA, cvalue = 11\<rparr>] = 12"
  "calculateBlackjackScore [\<lparr>suit = s1, rank = RA, cvalue = 11\<rparr>, \<lparr>suit = s2, rank = RK, cvalue = 10\<rparr>] = 21"
  "calculateBlackjackScore [\<lparr>suit = s1, rank = RK, cvalue = 10\<rparr>, \<lparr>suit = s2, rank = RK, cvalue = 10\<rparr>,
      \<lparr>suit = s3, rank = RK, cvalue = 10\<rparr>] = 30"
  by (simp_all add: calculateBlackjackScore_def adjustAces.simps)

text \<open>
  Claim C5. For a hand of cards that carry the values of \<open>createDeck\<close>, the score is the
  total with aces as 11 and tens and face cards as 10, less 10 for each of the first \<open>k\<close>
  aces, where the total before each of these subtractions exceeds 21 and the subtractions
  stop when the total is at most 21 or no ace is left. It is the highest achievable total
  that is at most 21, or the least achievable total when every one exceeds 21. Two aces
  score 12, an ace and a king 21, three kings 30.
\<close>

theorem calculateBlackjackScore_best_total:
  assumes "\<forall>c\<in>set hand. deckCard c"
  shows "(\<exists>k. 0 \<le> k \<and> k \<le> aceCount hand
            \<and> calculateBlackjackScore hand = softTotal hand - 10 * k
            \<and> (\<forall>j. 0 \<le> j \<and> j < k \<longrightarrow> softTotal hand - 10 * j > 21)
            \<and> (calculateBlackjackScore hand \<le> 21 \<or> k = aceCount hand))
     \<and> calculateBlackjackScore hand \<in> set (achievableTotals hand)
     \<and> (if \<exists>t\<in>set (achievableTotals hand). t \<le> 21
        then calculateBlackjackScore hand \<le> 21
             \<and> (\<forall>t\<in>set (achievableTotals hand). t \<le> 21 \<longrightarrow> t \<le> calculateBlackjackScore hand)
        else \<forall>t\<in>set (achievableTotals hand). calculateBlackjackScore hand \<le> t)
     \<and> calculateBlackjackScore
          [\<lparr>suit = s1, rank = RA, cvalue = 11\<rparr>, \<lparr>suit = s2, rank = RA, cvalue = 11\<rparr>] = 12
     \<and> calculateBlackjackScore
          [\<lparr>suit = s1, rank = RA, cvalue = 11\<rparr>, \<lparr>suit = s2, rank = RK, cvalue = 10\<rparr>] = 21
     \<and> calculateBlackjackScore
          [\<lparr>suit = s1, rank = RK, cvalue = 10\<rparr>, \<lparr>suit = s2, rank = RK, cvalue = 10\<rparr>,
           \<lparr>suit = s3, rank = RK, cvalue = 10\<rparr>] = 30"
proof -
  have best: "if \<exists>t\<in>set (achievableTotals hand). t \<le> 21
        then calculateBlackjackScore hand \<le> 21
             \<and> (\<forall>t\<in>set (achievableTotals hand). t \<le> 21 \<longrightarrow> t \<le> calculateBlackjackScore hand)
        else \<forall>t\<in>set (achievableTotals hand). calculateBlackjackScore hand \<le> t"
  proof (cases "\<exists>t\<in>set (achievableTotals hand). t \<le> 21")
    case True
    then show ?thesis using score_best(2) [OF assms] by auto
  next
    case False
    then have "\<forall>u\<in>set (achievableTotals hand). 21 < u" by auto
    with False show ?thesis using score_best(3) [OF assms] by auto
  qed
  show ?thesis
    using score_steps [OF assms] score_best(1) [OF assms] best score_examples
    by blast
qed

theorem calculateBlackjackScore_best_total_witness:
  "deckCard \<lparr>suit = Spades, rank = RA, cvalue = 11\<rparr>
   \<and> deckCard \<lparr>suit = Hearts, rank = RK, cvalue = 10\<rparr>
   \<and> calculateBlackjackScore
        [\<lparr>suit = Spades, rank = RA, cvalue = 11\<rparr>, \<lparr>suit = Hearts, rank = RK, cvalue = 10\<rparr>] \<le> 21
   \<and> 11 \<le> calculateBlackjackScore
        [\<lparr>suit = Spades, rank = RA, cvalue = 11\<rparr>, \<lparr>suit = Hearts, rank = RK, cvalue = 10\<rparr>]"
  using calculateBlackjackScore_best_total
    [of "[\<lparr>suit = Spades, rank = RA, cvalue = 11\<rparr>, \<lparr>suit = Hearts, rank = RK, cvalue = 10\<rparr>]"]
  by (simp add: deckCard_def deckValue_def)

subsection \<open>Taking cards from the deck\<close>

lemma pop_snoc [simp]: "pop (xs @ [x]) = (Some x, xs)"
  by (simp add: pop_def)

lemma pop_Nil [simp]: "pop [] = (None, [])"
  by (simp add: pop_def)

lemma pop_Cons: "pop (x # xs) = (if xs = [] then (Some x, []) else (fst (pop xs), x # snd (pop xs)))"
  by (simp add: pop_def)

lemma pop_append: "ys \<noteq> [] \<Longrightarrow> pop (xs @ ys) = (fst (pop ys), xs @ snd (pop ys))"
  by (simp add: pop_def butlast_append)

subsection \<open>The banker's third card\<close>

lemma stacked_perm: "mset (stackedShuffle orderedDeck) = mset orderedDeck"
proof -
  have "filter (\<lambda>c. \<not> c \<notin> set stacked) orderedDeck = stacked"
    by (simp add: orderedDeck_def suits_def ranks_def stacked_def deckValue_def)
  then have "mset stacked = filter_mset (\<lambda>c. \<not> c \<notin> set stacked) (mset orderedDeck)"
    by (metis mset_filter)
  then show ?thesis
    by (simp add: stackedShuffle_def)
qed

lemma deal_stacked:
  "dealBaccarat (rest @ stacked) =
     Inr (\<lparr>cards = [\<lparr>suit = Clubs, rank = R3, cvalue = 3\<rparr>, \<lparr>suit = Clubs, rank = R2, cvalue = 2\<rparr>,
                   \<lparr>suit = Hearts, rank = RK, cvalue = 10\<rparr>], hvalue = 5, isNatural = False\<rparr>,
          \<lparr>cards = [\<lparr>suit = Diamonds, rank = R2, cvalue = 2\<rparr>, \<lparr>suit = Diamonds, rank = RA, cvalue = 11\<rparr>],
             hvalue = 3, isNatural = False\<rparr>)"
proof -
  have "rest @ stacked = ((((rest @ [\<lparr>suit = Hearts, rank = RK, cvalue = 10\<rparr>]) @ 
      [\<lparr>suit = Diamonds, rank = RA, cvalue = 11\<rparr>]) @
      [\<lparr>suit = Diamonds, rank = R2, cvalue = 2\<rparr>]) @
      [\<lparr>suit = Clubs, rank = R2, cvalue = 2\<rparr>]) @
      [\<lparr>suit = Clubs, rank = R3, cvalue = 3\<rparr>]"
    by (simp add: stacked_def)
  then show ?thesis
    by (simp only: dealBaccarat_def pop_snoc Let_def split)
       (simp add: bindE_def baccaratValueDyn_def calculateBaccaratValue_def baccaratCardValue_def
          signed_modulo_int_def shouldBankerDrawThird_def rules_def mkHand_def)
qed

text \<open>
  Claim C2, at an input where the code departs from it. The player holds 3 and 2 and
  draws a king, whose baccarat value is 0; the banker holds 2 and ace, a value of 3. The
  rule table says draw for the pair (3, 0), but \<open>playBaccarat\<close> looks it up with the card's
  field \<open>value\<close>, which is 10, and the banker stands on two cards.
\<close>

theorem banker_stands_on_face_card:
  "mset (stackedShuffle orderedDeck) = mset orderedDeck
   \<and> playBaccarat stackedShuffle (initialEngine [''p1'' \<mapsto> alice]) ''p1'' ''baccarat-1'' OnBanker 10 =
     (Inr (BaccaratDone
        \<lparr>playerHand =
           \<lparr>cards = [\<lparr>suit = Clubs, rank = R3, cvalue = 3\<rparr>, \<lparr>suit = Clubs, rank = R2, cvalue = 2\<rparr>,
                      \<lparr>suit = Hearts, rank = RK, cvalue = 10\<rparr>], hvalue = 5, isNatural = False\<rparr>,
         bankerHand =
           \<lparr>cards = [\<lparr>suit = Diamonds, rank = R2, cvalue = 2\<rparr>, \<lparr>suit = Diamonds, rank = RA, cvalue = 11\<rparr>],
             hvalue = 3, isNatural = False\<rparr>,
         winner = OnPlayer\<rparr> 0 OnBanker 10),
      initialEngine [''p1'' \<mapsto> alice])
   \<and> baccaratCardValue \<lparr>suit = Hearts, rank = RK, cvalue = 10\<rparr> = 0
   \<and> shouldBankerDrawThird 3 0
   \<and> \<not> shouldBankerDrawThird 3 (cvalue \<lparr>suit = Hearts, rank = RK, cvalue = 10\<rparr>)"
proof -
  have "playBaccarat stackedShuffle (initialEngine [''p1'' \<mapsto> alice]) ''p1'' ''baccarat-1'' OnBanker 10 =
     (Inr (BaccaratDone
        \<lparr>playerHand =
           \<lparr>cards = [\<lparr>suit = Clubs, rank = R3, cvalue = 3\<rparr>, \<lparr>suit = Clubs, rank = R2, cvalue = 2\<rparr>,
                      \<lparr>suit = Hearts, rank = RK, cvalue = 10\<rparr>], hvalue = 5, isNatural = False\<rparr>,
         bankerHand =
           \<lparr>cards = [\<lparr>suit = Diamonds, rank = R2, cvalue = 2\<rparr>, \<lparr>suit = Diamonds, rank = RA, cvalue = 11\<rparr>],
             hvalue = 3, isNatural = False\<rparr>,
         winner = OnPlayer\<rparr> 0 OnBanker 10),
      initialEngine [''p1'' \<mapsto> alice])"
    by (simp add: playBaccarat_def tables_eval tableList_def createDeck_def stackedShuffle_def deal_stacked)
  moreover have "baccaratCardValue \<lparr>suit = Hearts, rank = RK, cvalue = 10\<rparr> = 0"
    by (simp add: baccaratCardValue_def)
  moreover have "shouldBankerDrawThird 3 0"
    "\<not> shouldBankerDrawThird 3 (cvalue \<lparr>suit = Hearts, rank = RK, cvalue = 10\<rparr>)"
    by (simp_all add: shouldBankerDrawThird_def rules_def)
  ultimately show ?thesis using stacked_perm by blast
qed


subsection \<open>Blackjack calls\<close>

lemma exn_TypeError: "(e::exn) = TypeError"
  by (cases e) simp

lemma resolve_no_hand:
  assumes "playerHands gs playerId = None"
  shows "fst (resolveBlackjackHand eng playerId gs) = Inl TypeError"
proof -
  obtain ended dh dk where d: "dealerDraw (dealerHand gs) (deck gs) = (ended, dh, dk)"
    by (cases "dealerDraw (dealerHand gs) (deck gs)") auto
  show ?thesis
  proof (cases ended)
    case (Inl e)
    with d show ?thesis
      by (simp add: resolveBlackjackHand_def Let_def exn_TypeError [of e])
  next
    case (Inr u)
    with d assms show ?thesis
      by (simp add: resolveBlackjackHand_def Let_def blackjackScoreDyn_def)
  qed
qed

text \<open>
  Claim C3, at an input where the code departs from it. On a new engine, "stand" for a
  registered player at the blackjack table leaves \<open>playBlackjack\<close> with a TypeError,
  whatever the shuffle: no reply is returned.
\<close>

theorem stand_without_hand_throws:
  "fst (playBlackjack shuffle (initialEngine [''p1'' \<mapsto> alice]) ''p1'' ''blackjack-1'' ''stand'' None)
     = Inl TypeError"
proof -
  have "fst (resolveBlackjackHand (initialEngine [''p1'' \<mapsto> alice]) ''p1'' (freshState shuffle))
          = Inl TypeError"
    by (rule resolve_no_hand) (simp add: freshState_def)
  then show ?thesis
    by (auto simp add: playBlackjack_def tables_eval tableList_def initialEngine_def getPlayer_def
          split: prod.splits)
qed

lemma orderedDeck_snoc:
  "orderedDeck = ((((take 48 orderedDeck) @ [\<lparr>suit = Spades, rank = RT, cvalue = 10\<rparr>])
      @ [\<lparr>suit = Spades, rank = RJ, cvalue = 10\<rparr>])
      @ [\<lparr>suit = Spades, rank = RQ, cvalue = 10\<rparr>])
      @ [\<lparr>suit = Spades, rank = RK, cvalue = 10\<rparr>]"
  by (simp add: orderedDeck_def suits_def ranks_def deckValue_def)

lemma addBalance_gameStates: "gameStates (addBalance eng playerId amt cur) = gameStates eng"
  by (simp add: addBalance_def split: option.splits)

lemma writeBack_players: "players (writeBack eng tableId gs) = players eng"
  by (simp add: writeBack_def)

lemma resolve_gameStates:
  "gameStates (snd (snd (resolveBlackjackHand eng playerId gs))) = gameStates eng"
  by (simp add: resolveBlackjackHand_def Let_def addBalance_gameStates
        split: prod.splits sum.splits option.splits)

text \<open>
  No call of \<open>playBlackjack\<close> adds a table to \<open>gameStates\<close>: a table without a stored state
  never gets one.
\<close>

lemma playBlackjack_stores_no_state:
  "dom (gameStates (snd (playBlackjack shuffle eng playerId tableId action bet)))
     = dom (gameStates eng)"
proof -
  have w: "dom (gameStates (writeBack e tableId g)) = dom (gameStates eng)"
    if "gameStates e = gameStates eng" for e g
    using that by (auto simp: writeBack_def)
  have r: "gameStates (snd (snd (resolveBlackjackHand e playerId g))) = gameStates eng"
    if "gameStates e = gameStates eng" for e g
    using that by (simp add: resolve_gameStates)
  show ?thesis
    by (simp add: playBlackjack_def Let_def case_prod_beta w r split: option.splits)
qed

lemma hit_after_bet_general:
  assumes "gameStates eng tableId = None" and "tables tableId = Some t" and "gtype t = Blackjack"
    and "players eng playerId = Some p"
  shows "fst (playBlackjack shuffle' (snd (playBlackjack shuffle eng playerId tableId ''bet'' b))
                playerId tableId ''hit'' b')
           = Inr (Failure ''No active hand'')"
proof -
  let ?e = "snd (playBlackjack shuffle eng playerId tableId ''bet'' b)"
  have d: "dom (gameStates ?e) = dom (gameStates eng)"
    by (rule playBlackjack_stores_no_state)
  have "tableId \<notin> dom (gameStates eng)"
    using assms(1) by (simp add: domIff)
  then have "tableId \<notin> dom (gameStates ?e)"
    unfolding d .
  then have g: "gameStates ?e tableId = None"
    by (simp only: domIff not_not)
  have "\<exists>q. players ?e playerId = Some q"
    using assms(2,3,4)
    by (cases b) (simp_all add: playBlackjack_def getPlayer_def writeBack_players Let_def
        split: prod.splits)
  then obtain p' where p': "players ?e playerId = Some p'" by blast
  show ?thesis
    by (simp add: playBlackjack_def [of shuffle' ?e] assms(2,3) g p' getPlayer_def freshState_def)
qed

text \<open>
  As long as the table has no stored state, no call of \<open>playBlackjack\<close> reaches a resolved
  hand: "stand" throws and "double" finds no hand.
\<close>

lemma no_resolution_without_state:
  assumes "gameStates eng tableId = None"
  shows "fst (playBlackjack shuffle eng playerId tableId action bet)
           \<noteq> Inr (HandResolved res ps ds dh pay)"
proof -
  have s: "fst (resolveBlackjackHand e playerId (freshState shuffle)) = Inl TypeError" for e
    by (rule resolve_no_hand) (simp add: freshState_def)
  have h: "playerHands (freshState shuffle) playerId = None"
    by (simp add: freshState_def)
  show ?thesis
    by (simp add: playBlackjack_def Let_def case_prod_beta assms s h bindE_def
          split: option.splits sum.splits)
qed

text \<open>
  Claim C1, at an input where the code departs from it. On a new engine a bet of 10 at
  the blackjack table succeeds and deals king and queen to the player, yet the engine
  holds no state for the table afterwards, and the following "hit" is answered with
  "No active hand".
\<close>

theorem hit_after_bet_finds_no_hand:
  "playBlackjack id (initialEngine [''p1'' \<mapsto> alice]) ''p1'' ''blackjack-1'' ''bet'' (Some (Finite 10)) =
     (Inr (BetDealt [Some \<lparr>suit = Spades, rank = RK, cvalue = 10\<rparr>,
                     Some \<lparr>suit = Spades, rank = RQ, cvalue = 10\<rparr>]
                    (Some \<lparr>suit = Spades, rank = RJ, cvalue = 10\<rparr>) 20),
      initialEngine [''p1'' \<mapsto> alice\<lparr>currentBet := 10\<rparr>])
   \<and> playBlackjack id (initialEngine [''p1'' \<mapsto> alice\<lparr>currentBet := 10\<rparr>])
        ''p1'' ''blackjack-1'' ''hit'' None =
     (Inr (Failure ''No active hand''), initialEngine [''p1'' \<mapsto> alice\<lparr>currentBet := 10\<rparr>])"
proof -
  have sc: "calculateBlackjackScore [\<lparr>suit = Spades, rank = RK, cvalue = 10\<rparr>,
      \<lparr>suit = Spades, rank = RQ, cvalue = 10\<rparr>] = 20"
    by (simp add: calculateBlackjackScore_def adjustAces.simps)
  have d: "deck (freshState id) = ((((take 48 orderedDeck) @ [\<lparr>suit = Spades, rank = RT, cvalue = 10\<rparr>])
      @ [\<lparr>suit = Spades, rank = RJ, cvalue = 10\<rparr>])
      @ [\<lparr>suit = Spades, rank = RQ, cvalue = 10\<rparr>])
      @ [\<lparr>suit = Spades, rank = RK, cvalue = 10\<rparr>]"
    using orderedDeck_snoc by (simp add: freshState_def createDeck_def)
  have 1: "playBlackjack id (initialEngine [''p1'' \<mapsto> alice]) ''p1'' ''blackjack-1'' ''bet'' (Some (Finite 10)) =
     (Inr (BetDealt [Some \<lparr>suit = Spades, rank = RK, cvalue = 10\<rparr>,
                     Some \<lparr>suit = Spades, rank = RQ, cvalue = 10\<rparr>]
                    (Some \<lparr>suit = Spades, rank = RJ, cvalue = 10\<rparr>) 20),
      initialEngine [''p1'' \<mapsto> alice\<lparr>currentBet := 10\<rparr>])"
    by (simp add: playBlackjack_def tables_eval tableList_def initialEngine_def getPlayer_def
          writeBack_def d bindE_def blackjackScoreDyn_def sc pop_append pop_Cons)
  have 2: "playBlackjack id (initialEngine [''p1'' \<mapsto> alice\<lparr>currentBet := 10\<rparr>])
        ''p1'' ''blackjack-1'' ''hit'' None =
     (Inr (Failure ''No active hand''), initialEngine [''p1'' \<mapsto> alice\<lparr>currentBet := 10\<rparr>])"
    by (simp add: playBlackjack_def tables_eval tableList_def initialEngine_def getPlayer_def
          freshState_def)
  from 1 2 show ?thesis by blast
qed

subsection \<open>Dealer resolution and payout\<close>

lemma scoreDyn_defined:
  "None \<notin> set h \<Longrightarrow> blackjackScoreDyn (Some h) = Inr (calculateBlackjackScore (map the h))"
  by (simp add: blackjackScoreDyn_def)

lemma dealerDraw_minimal_prefix:
  "None \<notin> set dh \<Longrightarrow>
   17 \<le> calculateBlackjackScore (map the dh @ drawn) \<Longrightarrow>
   \<forall>n<length drawn. calculateBlackjackScore (map the dh @ take n drawn) < 17 \<Longrightarrow>
   dealerDraw dh (rest @ rev drawn) = (Inr (), dh @ map Some drawn, rest)"
proof (induction drawn arbitrary: dh)
  case Nil
  then show ?case
    by (subst dealerDraw.simps) (simp add: scoreDyn_defined)
next
  case (Cons c ds)
  from Cons.prems(3) have low: "calculateBlackjackScore (map the dh) < 17"
    by (auto dest: spec [of _ 0])
  have p: "pop (rest @ rev ds @ [c]) = (Some c, rest @ rev ds)"
    using pop_snoc [of "rest @ rev ds" c] by simp
  have a: "None \<notin> set (dh @ [Some c])" using Cons.prems(1) by simp
  have b: "17 \<le> calculateBlackjackScore (map the (dh @ [Some c]) @ ds)"
    using Cons.prems(2) by simp
  have c3: "\<forall>n<length ds. calculateBlackjackScore (map the (dh @ [Some c]) @ take n ds) < 17"
  proof (intro allI impI)
    fix n assume "n < length ds"
    then have "Suc n < length (c # ds)" by simp
    with Cons.prems(3) have "calculateBlackjackScore (map the dh @ take (Suc n) (c # ds)) < 17"
      by blast
    then show "calculateBlackjackScore (map the (dh @ [Some c]) @ take n ds) < 17" by simp
  qed
  have "dealerDraw dh (rest @ rev (c # ds)) = dealerDraw (dh @ [Some c]) (rest @ rev ds)"
    by (subst dealerDraw.simps) (simp add: scoreDyn_defined [OF Cons.prems(1)] low p)
  also have "\<dots> = (Inr (), (dh @ [Some c]) @ map Some ds, rest)"
    by (rule Cons.IH [OF a b c3])
  finally show ?case by simp
qed

lemma dealerDraw_returned:
  "dealerDraw dh dk = (Inr u, dh', dk') \<Longrightarrow>
   \<exists>drawn. dk = dk' @ rev drawn \<and> dh' = dh @ map Some drawn \<and> None \<notin> set dh
      \<and> 17 \<le> calculateBlackjackScore (map the dh @ drawn)
      \<and> (\<forall>n<length drawn. calculateBlackjackScore (map the dh @ take n drawn) < 17)"
proof (induction dh dk rule: dealerDraw.induct)
  case (1 hand dk)
  show ?case
  proof (cases "None \<in> set hand")
    case True
    then have "dealerDraw hand dk = (Inl TypeError, hand, dk)"
      by (subst dealerDraw.simps) (simp add: blackjackScoreDyn_def)
    with 1(2) show ?thesis by simp
  next
    case False
    note sc = scoreDyn_defined [OF False]
    show ?thesis
    proof (cases "calculateBlackjackScore (map the hand) < 17")
      case stand: False
      then have "dealerDraw hand dk = (Inr (), hand, dk)"
        by (subst dealerDraw.simps) (simp add: sc)
      with 1(2) stand False show ?thesis
        by (intro exI [of _ "[]"]) simp
    next
      case draw: True
      then have step: "dealerDraw hand dk = dealerDraw (hand @ [fst (pop dk)]) (snd (pop dk))"
        by (subst dealerDraw.simps) (simp add: sc)
      with 1(2) have r: "dealerDraw (hand @ [fst (pop dk)]) (snd (pop dk)) = (Inr u, dh', dk')"
        by simp
      from 1(1) [OF sc draw r] obtain ds where ds:
        "snd (pop dk) = dk' @ rev ds" "dh' = (hand @ [fst (pop dk)]) @ map Some ds"
        "None \<notin> set (hand @ [fst (pop dk)])"
        "17 \<le> calculateBlackjackScore (map the (hand @ [fst (pop dk)]) @ ds)"
        "\<forall>n<length ds. calculateBlackjackScore (map the (hand @ [fst (pop dk)]) @ take n ds) < 17"
        by blast
      from ds(3) have ne: "dk \<noteq> []" by (auto simp: pop_def)
      then have p: "fst (pop dk) = Some (last dk)" "snd (pop dk) = butlast dk"
        by (simp_all add: pop_def)
      have dk: "dk = dk' @ rev (last dk # ds)"
        using ds(1) p(2) append_butlast_last_id [OF ne] by simp
      have low: "\<forall>n<length (last dk # ds).
          calculateBlackjackScore (map the hand @ take n (last dk # ds)) < 17"
      proof (intro allI impI)
        fix n assume n: "n < length (last dk # ds)"
        show "calculateBlackjackScore (map the hand @ take n (last dk # ds)) < 17"
        proof (cases n)
          case 0
          with draw show ?thesis by simp
        next
          case (Suc m)
          with n have "m < length ds" by simp
          with ds(5) p(1) Suc show ?thesis by simp
        qed
      qed
      show ?thesis
        using dk ds(2,4) p(1) False low
        by (intro exI [of _ "last dk # ds"]) simp
    qed
  qed
qed

text \<open>
  Claim C4. Let the player's hand, the bet \<open>b\<close> and the player be present, and let \<open>drawn\<close>
  be the cards on top of the deck such that the dealer's score is below 17 before each of
  them is drawn and at least 17 after the last. Then \<open>resolveBlackjackHand\<close> returns with
  exactly these cards added to the dealer's hand and taken from the deck. The payout is 0
  when the player's score exceeds 21, else \<open>2 b\<close> when the dealer's exceeds 21, else \<open>2 b\<close>
  when the player's score is higher, 0 when it is lower and \<open>b\<close> on a tie. A payout above
  0 is added once to the player's gold coins; otherwise the engine is unchanged.
\<close>

theorem resolveBlackjackHand_payout:
  assumes "playerHands gs playerId = Some ph" and "None \<notin> set ph"
    and "None \<notin> set (dealerHand gs)"
    and "bets gs playerId = Some b"
    and "players eng playerId = Some p"
    and "deck gs = rest @ rev drawn"
    and "17 \<le> calculateBlackjackScore (map the (dealerHand gs) @ drawn)"
    and "\<forall>n<length drawn. calculateBlackjackScore (map the (dealerHand gs) @ take n drawn) < 17"
  shows "resolveBlackjackHand eng playerId gs =
     (let ps = calculateBlackjackScore (map the ph);
          ds = calculateBlackjackScore (map the (dealerHand gs) @ drawn);
          pay = (if ps > 21 then 0
                 else if ds > 21 then b * 2
                 else if ps > ds then b * 2
                 else if ps < ds then 0
                 else b);
          res = (if ps > 21 then ''bust''
                 else if ds > 21 then ''win''
                 else if ps > ds then ''win''
                 else if ps < ds then ''lose''
                 else ''push'')
      in (Inr (HandResolved res ps ds (dealerHand gs @ map Some drawn) (Some pay)),
          gs\<lparr>dealerHand := dealerHand gs @ map Some drawn, deck := rest\<rparr>,
          if pay > 0
          then eng\<lparr>players := (players eng)(playerId \<mapsto>
                 p\<lparr>balance := (balance p)\<lparr>goldCoins := goldCoins (balance p) + pay\<rparr>\<rparr>)\<rparr>
          else eng))"
proof -
  have d: "dealerDraw (dealerHand gs) (deck gs) = (Inr (), dealerHand gs @ map Some drawn, rest)"
    unfolding assms(6) by (rule dealerDraw_minimal_prefix [OF assms(3,7,8)])
  have s1: "blackjackScoreDyn (Some ph) = Inr (calculateBlackjackScore (map the ph))"
    by (rule scoreDyn_defined [OF assms(2)])
  have s2: "blackjackScoreDyn (Some (dealerHand gs @ map Some drawn)) =
      Inr (calculateBlackjackScore (map the (dealerHand gs) @ drawn))"
    using assms(3) by (simp add: blackjackScoreDyn_def image_iff comp_def)
  show ?thesis
    by (simp add: resolveBlackjackHand_def d s1 s2 assms(1,4,5) Let_def addBalance_def)
qed


theorem resolveBlackjackHand_payout_witness:
  "resolveBlackjackHand (initialEngine [''p1'' \<mapsto> alice]) ''p1'' sampleRound =
     (Inr (HandResolved ''win'' 20 26
             [Some \<lparr>suit = Clubs, rank = R9, cvalue = 9\<rparr>,
              Some \<lparr>suit = Clubs, rank = R7, cvalue = 7\<rparr>,
              Some \<lparr>suit = Diamonds, rank = RK, cvalue = 10\<rparr>] (Some 20)),
      sampleRound
        \<lparr>dealerHand := [Some \<lparr>suit = Clubs, rank = R9, cvalue = 9\<rparr>,
                        Some \<lparr>suit = Clubs, rank = R7, cvalue = 7\<rparr>,
                        Some \<lparr>suit = Diamonds, rank = RK, cvalue = 10\<rparr>],
         deck := [\<lparr>suit = Hearts, rank = R2, cvalue = 2\<rparr>]\<rparr>,
      initialEngine
        [''p1'' \<mapsto> alice\<lparr>balance := \<lparr>goldCoins = 1020, sweepCoins = 0\<rparr>\<rparr>])"
proof -
  let ?ph = "[Some \<lparr>suit = Spades, rank = RK, cvalue = 10\<rparr>,
              Some \<lparr>suit = Spades, rank = RQ, cvalue = 10\<rparr>]"
  let ?drawn = "[\<lparr>suit = Diamonds, rank = RK, cvalue = 10\<rparr>]"
  let ?rest = "[\<lparr>suit = Hearts, rank = R2, cvalue = 2\<rparr>]"
  have h1: "playerHands sampleRound ''p1'' = Some ?ph" by (simp add: sampleRound_def)
  have h2: "None \<notin> set ?ph" by simp
  have h3: "None \<notin> set (dealerHand sampleRound)" by (simp add: sampleRound_def)
  have h4: "bets sampleRound ''p1'' = Some 10" by (simp add: sampleRound_def)
  have h5: "players (initialEngine [''p1'' \<mapsto> alice]) ''p1'' = Some alice"
    by (simp add: initialEngine_def)
  have h6: "deck sampleRound = ?rest @ rev ?drawn" by (simp add: sampleRound_def)
  have h7: "17 \<le> calculateBlackjackScore (map the (dealerHand sampleRound) @ ?drawn)"
    by (simp add: sampleRound_def calculateBlackjackScore_def adjustAces.simps)
  have h8: "\<forall>n<length ?drawn.
      calculateBlackjackScore (map the (dealerHand sampleRound) @ take n ?drawn) < 17"
    by (simp add: sampleRound_def calculateBlackjackScore_def adjustAces.simps)
  show ?thesis
    using resolveBlackjackHand_payout [OF h1 h2 h3 h4 h5 h6 h7 h8]
    by (simp add: sampleRound_def calculateBlackjackScore_def adjustAces.simps
          initialEngine_def alice_def)
qed


subsection \<open>Validation of the bet amount\<close>











end
